theory Spec2Isabelle
  imports Main "HOL-Library.AList"
begin

section \<open>Bridgy Fed: the ActivityPub inbox handler (activitypub.py)\<close>

text \<open>
  The development embeds \<^verbatim>\<open>activitypub.py\<close>: \<^verbatim>\<open>send\<close>, \<^verbatim>\<open>inbox\<close>,
  \<^verbatim>\<open>accept_follow\<close> and \<^verbatim>\<open>undo_follow\<close>. The handler works on parsed JSON, on the
  datastore (Follower, Activity and User entities) and on the network. JSON values are a
  datatype, the datastore and the list of outbound POSTs are a record that every function
  takes and returns, and every exception is a value. The functions of other modules
  (\<^verbatim>\<open>common\<close>, \<^verbatim>\<open>granary.as2\<close>, \<^verbatim>\<open>webutil.util\<close>, \<^verbatim>\<open>httpsig\<close>) are the
  fields of an environment record, so that every theorem holds for whatever they compute.
\<close>

subsection \<open>JSON values and the Python operations the handler applies to them\<close>

text \<open>
  A dict is an association list in insertion order; \<^verbatim>\<open>d.get(k)\<close> reads the first
  binding of \<open>k\<close>. Numbers are integers: the handler only tests numbers for truth and for
  their type, and a non-integral number behaves there as a non-zero integer does.
\<close>

datatype json =
    JNull
  | JBool bool
  | JNum int
  | JStr string
  | JArr "json list"
  | JObj "(string \<times> json) list"

type_synonym dict = "(string \<times> json) list"

text \<open>Python's truth value of a parsed JSON value (\<^verbatim>\<open>if x\<close>, \<^verbatim>\<open>not x\<close>, \<^verbatim>\<open>x or y\<close>).\<close>

fun truthy :: "json \<Rightarrow> bool" where
  "truthy JNull = False"
| "truthy (JBool b) = b"
| "truthy (JNum n) = (n \<noteq> 0)"
| "truthy (JStr s) = (s \<noteq> [])"
| "truthy (JArr xs) = (xs \<noteq> [])"
| "truthy (JObj kvs) = (kvs \<noteq> [])"

text \<open>\<^verbatim>\<open>d.get(k)\<close> on a dict: the value, or \<^verbatim>\<open>None\<close> when the key is missing.\<close>

definition dget :: "dict \<Rightarrow> string \<Rightarrow> json" where
  "dget kvs k = (case map_of kvs k of None \<Rightarrow> JNull | Some v \<Rightarrow> v)"

text \<open>\<^verbatim>\<open>a or b\<close>.\<close>

definition py_or :: "json \<Rightarrow> json \<Rightarrow> json" where
  "py_or a b = (if truthy a then a else b)"

text \<open>
  Exceptions. \<open>Error n\<close> is \<^verbatim>\<open>flask_util.error(msg, status=n)\<close>, which aborts the request
  with that HTTP status (400 when no status is given); the message text is not modelled.
  \<open>ErrorStatus v\<close> is \<^verbatim>\<open>error\<close> called with the non-integer \<open>v\<close> in the place of the
  status, as line 203 of the source does. \<open>Other\<close> stands for the exceptions of the
  collaborators (a bad gateway, a timeout, ...).
\<close>

datatype exn =
    Error nat
  | ErrorStatus json
  | AttributeError
  | BadValueError
  | Other string

text \<open>\<^verbatim>\<open>x.get(k)\<close> on any value: only a dict has the method.\<close>

fun py_get :: "json \<Rightarrow> string \<Rightarrow> exn + json" where
  "py_get (JObj kvs) k = Inr (dget kvs k)"
| "py_get _ k = Inl AttributeError"

subsection \<open>The datastore entities\<close>

text \<open>
  \<^verbatim>\<open>models.py\<close> is not among the sources; the entities follow section 3 of the
  specification. A Follower is identified by the pair (dest domain, src actor URI).
\<close>

record follower =
  dest :: string
  src :: string
  status :: string
  last_follow :: string

type_synonym follower_key = "string \<times> string"

record activity =
  source :: json
  target :: string
  direction :: string
  protocol :: string
  domain :: "string list"
  astatus :: string
  source_as2 :: string

text \<open>An outbound POST as \<^verbatim>\<open>send\<close> hands it to \<^verbatim>\<open>common.requests_post\<close>.\<close>

record signature_auth =
  secret :: string
  key_id :: string
  algorithm :: string
  sign_header :: string
  signed_headers :: "string list"

record request =
  url :: json
  data :: string
  auth :: signature_auth
  headers :: "(string \<times> string option) list"

record response =
  resp_text :: string
  status_code :: nat

text \<open>
  The state: the three entity kinds of the datastore and the outbound POSTs attempted so
  far, oldest first. Follower entities are kept with their key; a put on an existing key
  replaces the entity in place.
\<close>

record state =
  followers :: "(follower_key \<times> follower) list"
  activities :: "activity list"
  users :: "(string \<times> string) list"
  outbox :: "request list"

subsection \<open>The collaborators\<close>

text \<open>
  What the handler calls in other modules. \<open>now\<close> is the formatted
  \<^verbatim>\<open>datetime.utcnow()\<close>, \<open>host_url\<close> and \<open>host\<close> are those of the Flask request,
  \<open>generate_key\<close> is the key pair a new User gets, \<open>py_str\<close> is Python's \<^verbatim>\<open>str\<close>
  as the \<^verbatim>\<open>%s\<close> format applies it.
\<close>

record env =
  get_as2 :: "string \<Rightarrow> exn + json"
  redirect_unwrap :: "json \<Rightarrow> json"
  to_as1 :: "json \<Rightarrow> exn + json"
  json_dumps :: "json \<Rightarrow> string"
  send_webmentions :: "json \<Rightarrow> string \<Rightarrow> exn + bool"
  is_public :: "json \<Rightarrow> bool"
  domain_from_link :: "json \<Rightarrow> exn + string option"
  requests_post :: "request \<Rightarrow> exn + response"
  tag_uri :: "string \<Rightarrow> string \<Rightarrow> string"
  py_str :: "json \<Rightarrow> string"
  sha256 :: "string \<Rightarrow> string"
  b64encode :: "string \<Rightarrow> string"
  rsa_sha256 :: "string \<Rightarrow> string \<Rightarrow> (string \<times> string option) list \<Rightarrow> string"
  generate_key :: "string \<Rightarrow> string"
  now :: string
  host_url :: string
  host :: string

subsection \<open>The stores (models.py)\<close>

text \<open>
  Modelled from the spec: \<^verbatim>\<open>Follower._id\<close> of models.py is missing. Section 3 gives the
  identity of a Follower as the composite key (dest domain, src actor URI). The
  specification defines no key when the domain is \<^verbatim>\<open>None\<close> or the actor is not a
  string; the model raises there.
\<close>

definition Follower_id :: "string option \<Rightarrow> json \<Rightarrow> exn + follower_key" where
  "Follower_id d a =
     (case d of
        None \<Rightarrow> Inl BadValueError
      | Some d' \<Rightarrow> (case a of JStr actor \<Rightarrow> Inr (d', actor) | _ \<Rightarrow> Inl BadValueError))"

text \<open>
  Modelled from the spec: \<^verbatim>\<open>Follower.get_or_create\<close> of models.py is missing. Section
  4.3: it upserts; if an inactive record exists for the same key, it reactivates it and
  overwrites \<^verbatim>\<open>last_follow\<close>.
\<close>

definition Follower_get_or_create ::
    "string option \<Rightarrow> json \<Rightarrow> string \<Rightarrow> state \<Rightarrow> exn + state" where
  "Follower_get_or_create d a lf s =
     (case Follower_id d a of
        Inl e \<Rightarrow> Inl e
      | Inr k \<Rightarrow>
          Inr (s\<lparr>followers :=
                 AList.update k \<lparr>dest = fst k, src = snd k, status = ''active'',
                                 last_follow = lf\<rparr> (followers s)\<rparr>))"

text \<open>\<^verbatim>\<open>Follower.get_by_id(key)\<close>.\<close>

definition Follower_get_by_id :: "follower_key \<Rightarrow> state \<Rightarrow> follower option" where
  "Follower_get_by_id k s = map_of (followers s) k"

text \<open>\<^verbatim>\<open>entity.put()\<close> of a Follower under its key.\<close>

definition Follower_put :: "follower_key \<Rightarrow> follower \<Rightarrow> state \<Rightarrow> state" where
  "Follower_put k f s = s\<lparr>followers := AList.update k f (followers s)\<rparr>"

text \<open>
  \<^verbatim>\<open>Follower.query(Follower.dest == v, projection=[Follower.src]).fetch()\<close>: the entities
  whose \<open>dest\<close> is \<open>v\<close>, whatever their status. The datastore compares a string property
  with a string only and raises on another value.
\<close>

definition Follower_query_dest :: "json \<Rightarrow> state \<Rightarrow> exn + follower list" where
  "Follower_query_dest v s =
     (case v of
        JStr d \<Rightarrow> Inr (filter (\<lambda>f. dest f = d) (map snd (followers s)))
      | _ \<Rightarrow> Inl BadValueError)"

text \<open>
  Modelled from the spec: the Activity class of models.py is missing. Section 3: the log
  is append-only, one entry per put.
\<close>

definition Activity_put :: "activity \<Rightarrow> state \<Rightarrow> state" where
  "Activity_put a s = s\<lparr>activities := activities s @ [a]\<rparr>"

text \<open>
  Modelled from the spec: \<^verbatim>\<open>User.get_or_create\<close> and \<^verbatim>\<open>private_pem\<close> of models.py are
  missing. Section 4.1: the call always returns the User of the domain, generating a key
  pair on first creation; the key is stable thereafter. The result is the private key.
\<close>

definition User_get_or_create :: "env \<Rightarrow> string \<Rightarrow> state \<Rightarrow> string \<times> state" where
  "User_get_or_create E d s =
     (case map_of (users s) d of
        Some pem \<Rightarrow> (pem, s)
      | None \<Rightarrow> (generate_key E d, s\<lparr>users := users s @ [(d, generate_key E d)]\<rparr>))"

subsection \<open>send\<close>

text \<open>Modelled from the spec: \<^verbatim>\<open>common.CONTENT_TYPE_AS2\<close> is missing; section 6 gives it.\<close>

definition CONTENT_TYPE_AS2 :: string where
  "CONTENT_TYPE_AS2 = ''application/activity+json''"

text \<open>
  The request that \<^verbatim>\<open>send\<close> builds: the body is \<^verbatim>\<open>json_dumps(activity).encode()\<close>, and
  the same \<open>body\<close> is hashed for the Digest header and passed as \<^verbatim>\<open>data\<close>.
\<close>

definition build_request ::
    "env \<Rightarrow> json \<Rightarrow> json \<Rightarrow> string \<Rightarrow> string \<Rightarrow> string option \<Rightarrow> request" where
  "build_request E act inbox_url user_domain pem host_header =
     (let kid = host_url E @ user_domain;
          a = \<lparr>secret = pem, key_id = kid, algorithm = ''rsa-sha256'',
               sign_header = ''signature'',
               signed_headers = [''Date'', ''Digest'', ''Host'']\<rparr>;
          body = json_dumps E act;
          hs = [(''Content-Type'', Some CONTENT_TYPE_AS2),
                (''Date'', Some (now E)),
                (''Digest'', Some (''SHA-256='' @ b64encode E (sha256 E body))),
                (''Host'', host_header)]
      in \<lparr>url = inbox_url, data = body, auth = a, headers = hs\<rparr>)"

text \<open>
  \<^verbatim>\<open>send(activity, inbox_url, user_domain)\<close>. The User is fetched or created first, then
  the headers are built (\<^verbatim>\<open>util.domain_from_link\<close> may raise), then the request is
  posted. The POST is entered in the outbox when it is attempted, whatever its outcome.
\<close>

definition send :: "env \<Rightarrow> json \<Rightarrow> json \<Rightarrow> string \<Rightarrow> state \<Rightarrow> (exn + response) \<times> state" where
  "send E act inbox_url user_domain s =
     (let (pem, s1) = User_get_or_create E user_domain s
      in case domain_from_link E inbox_url of
           Inl e \<Rightarrow> (Inl e, s1)
         | Inr h \<Rightarrow>
             (let req = build_request E act inbox_url user_domain pem h
              in (requests_post E req, s1\<lparr>outbox := outbox s1 @ [req]\<rparr>)))"



subsection \<open>inbox, accept\_follow, undo\_follow\<close>

definition SUPPORTED_TYPES :: "string list" where
  "SUPPORTED_TYPES =
     [''Accept'', ''Announce'', ''Article'', ''Audio'', ''Create'', ''Delete'', ''Follow'',
      ''Image'', ''Like'', ''Note'', ''Undo'', ''Video'']"

text \<open>\<^verbatim>\<open>type not in SUPPORTED_TYPES\<close>: only a string equals a member.\<close>

definition supported :: "json \<Rightarrow> bool" where
  "supported t = (case t of JStr n \<Rightarrow> n \<in> set SUPPORTED_TYPES | _ \<Rightarrow> False)"

text \<open>What a request handler does: it returns a body and a status, or it raises.\<close>

datatype outcome = Returned string nat | Raised exn

text \<open>
  \<^verbatim>\<open>undo_follow(undo_unwrapped)\<close>. \<^verbatim>\<open>undo_unwrapped.get('object', {})\<close> gives the empty
  dict only when the key is missing.
\<close>

definition undo_follow :: "env \<Rightarrow> json \<Rightarrow> state \<Rightarrow> exn option \<times> state" where
  "undo_follow E undo_unwrapped s =
     (case undo_unwrapped of
        JObj ukvs \<Rightarrow>
          (let follow = (case map_of ukvs ''object'' of None \<Rightarrow> JObj [] | Some v \<Rightarrow> v)
           in case follow of
                JObj fkvs \<Rightarrow>
                  (let follower = dget fkvs ''actor''; followee = dget fkvs ''object''
                   in if \<not> truthy follower \<or> \<not> truthy followee then (Some (Error 400), s)
                      else case domain_from_link E followee of
                             Inl e \<Rightarrow> (Some e, s)
                           | Inr user_domain \<Rightarrow>
                               (case Follower_id user_domain follower of
                                  Inl e \<Rightarrow> (Some e, s)
                                | Inr k \<Rightarrow>
                                    (case Follower_get_by_id k s of
                                       Some follower_obj \<Rightarrow>
                                         (None, Follower_put k
                                                  (follower_obj\<lparr>status := ''inactive''\<rparr>) s)
                                     | None \<Rightarrow> (None, s))))
              | _ \<Rightarrow> (Some AttributeError, s))
      | _ \<Rightarrow> (Some AttributeError, s))"

text \<open>The Accept activity that \<^verbatim>\<open>accept_follow\<close> builds.\<close>

definition accept_activity :: "env \<Rightarrow> string \<Rightarrow> json \<Rightarrow> json \<Rightarrow> json \<Rightarrow> json" where
  "accept_activity E user_domain follow_id followee follower_id =
     JObj [(''@context'', JStr ''https://www.w3.org/ns/activitystreams''),
           (''id'', JStr (tag_uri E (host E)
                            (''accept/'' @ user_domain @ ''/'' @ py_str E follow_id))),
           (''type'', JStr ''Accept''),
           (''actor'', followee),
           (''object'', JObj [(''type'', JStr ''Follow''),
                              (''actor'', follower_id),
                              (''object'', followee)])]"

text \<open>
  \<^verbatim>\<open>accept_follow(follow, follow_unwrapped)\<close>; \<open>follow\<close> is the dict of the activity.
  Once the Follower is stored the domain is a string (the store raised on \<^verbatim>\<open>None\<close>), so
  \<open>ud\<close> is that string wherever it is used.
\<close>

definition accept_follow :: "env \<Rightarrow> dict \<Rightarrow> json \<Rightarrow> state \<Rightarrow> outcome \<times> state" where
  "accept_follow E follow follow_unwrapped s =
     (let followee = dget follow ''object''
      in case py_get follow_unwrapped ''object'' of
           Inl e \<Rightarrow> (Raised e, s)
         | Inr followee_unwrapped \<Rightarrow>
      (let follower = dget follow ''actor''
       in if \<not> truthy followee \<or> \<not> truthy followee_unwrapped \<or> \<not> truthy follower
          then (Raised (Error 400), s)
          else
          (case py_get follower ''inbox'' of
             Inl e \<Rightarrow> (Raised e, s)
           | Inr inbox_url \<Rightarrow>
          (case py_get follower ''id'' of
             Inl e \<Rightarrow> (Raised e, s)
           | Inr follower_id \<Rightarrow>
              if \<not> truthy inbox_url \<or> \<not> truthy follower_id
              then (Raised (ErrorStatus follower), s)
              else
              (case domain_from_link E followee_unwrapped of
                 Inl e \<Rightarrow> (Raised e, s)
               | Inr user_domain \<Rightarrow>
              (case Follower_get_or_create user_domain follower_id
                      (json_dumps E (JObj follow)) s of
                 Inl e \<Rightarrow> (Raised e, s)
               | Inr s1 \<Rightarrow>
              (let ud = (case user_domain of Some d \<Rightarrow> d | None \<Rightarrow> ''None'');
                   accept = accept_activity E ud (dget follow ''id'') followee follower_id;
                   (r, s2) = send E accept inbox_url ud s1
               in case r of
                    Inl e \<Rightarrow> (Raised e, s2)
                  | Inr resp \<Rightarrow>
                      (case to_as1 E (JObj follow) of
                         Inl e \<Rightarrow> (Raised e, s2)
                       | Inr as1 \<Rightarrow>
                           (case send_webmentions E as1 (json_dumps E follow_unwrapped) of
                              Inl e \<Rightarrow> (Raised e, s2)
                            | Inr _ \<Rightarrow>
                                (Returned (resp_text resp) (status_code resp), s2))))))))))"

text \<open>
  Lines 145 to 147 of \<^verbatim>\<open>inbox\<close>: an actor given as a non-empty string is fetched and
  stored back in the activity. The result is the actor and the activity.
\<close>

definition fetch_actor :: "env \<Rightarrow> dict \<Rightarrow> exn + json \<times> dict" where
  "fetch_actor E kvs =
     (case dget kvs ''actor'' of
        JStr a \<Rightarrow>
          (if a \<noteq> []
           then (case get_as2 E a of
                   Inl e \<Rightarrow> Inl e
                 | Inr fetched \<Rightarrow> Inr (fetched, AList.update ''actor'' fetched kvs))
           else Inr (JStr a, kvs))
      | actor \<Rightarrow> Inr (actor, kvs))"

text \<open>
  Lines 167 to 180: the followers of the actor are looked up and one Activity is written.
\<close>

definition log_activity :: "dict \<Rightarrow> json \<Rightarrow> string \<Rightarrow> state \<Rightarrow> outcome \<times> state" where
  "log_activity kvs actor src_as2 s =
     (let src_url = py_or (dget kvs ''url'') (dget kvs ''id'');
          found =
            (if truthy actor
             then (case py_get actor ''id'' of
                     Inl e \<Rightarrow> Inl e
                   | Inr actor_id \<Rightarrow>
                       (if truthy actor_id
                        then (case Follower_query_dest actor_id s of
                                Inl e \<Rightarrow> Inl e
                              | Inr fs \<Rightarrow> Inr (map src fs))
                        else Inr []))
             else Inr [])
      in case found of
           Inl e \<Rightarrow> (Raised e, s)
         | Inr domains \<Rightarrow>
             (Returned [] 200,
              Activity_put \<lparr>source = src_url, target = ''Public'', direction = ''in'',
                            protocol = ''activitypub'', domain = domains,
                            astatus = ''complete'', source_as2 = src_as2\<rparr> s))"

text \<open>
  Lines 144 to 182: the actor fetch, the Follow branch, the webmentions, and the log entry
  of a public Create or Announce for which no webmention was sent.
\<close>

definition deliver :: "env \<Rightarrow> dict \<Rightarrow> json \<Rightarrow> state \<Rightarrow> outcome \<times> state" where
  "deliver E kvs ty s =
     (case fetch_actor E kvs of
        Inl e \<Rightarrow> (Raised e, s)
      | Inr (actor, kvs1) \<Rightarrow>
          (let activity_unwrapped = redirect_unwrap E (JObj kvs1)
           in if ty = JStr ''Follow'' then accept_follow E kvs1 activity_unwrapped s
              else case to_as1 E (JObj kvs1) of
                     Inl e \<Rightarrow> (Raised e, s)
                   | Inr as1 \<Rightarrow>
                       (let source_as2 = json_dumps E activity_unwrapped
                        in case send_webmentions E as1 source_as2 of
                             Inl e \<Rightarrow> (Raised e, s)
                           | Inr sent \<Rightarrow>
                               (if \<not> sent \<and> (ty = JStr ''Create'' \<or> ty = JStr ''Announce'')
                                then (if \<not> is_public E activity_unwrapped
                                      then (Returned [] 200, s)
                                      else log_activity kvs1 actor source_as2 s)
                                else (Returned [] 200, s)))))"

text \<open>
  \<^verbatim>\<open>inbox(domain=None)\<close>. The argument is \<^verbatim>\<open>request.json\<close>: \<open>None\<close> when Flask could
  not parse the body. The \<^verbatim>\<open>domain\<close> of the route is not used by the source.
\<close>

definition inbox :: "env \<Rightarrow> json option \<Rightarrow> state \<Rightarrow> outcome \<times> state" where
  "inbox E body s =
     (case body of
        None \<Rightarrow> (Raised (Error 400), s)
      | Some act \<Rightarrow>
          if \<not> truthy act then (Raised (Error 400), s)
          else (case act of
            JObj kvs \<Rightarrow>
              (let obj0 = py_or (dget kvs ''object'') (JObj []);
                   obj = (case obj0 of JStr i \<Rightarrow> JObj [(''id'', JStr i)] | _ \<Rightarrow> obj0);
                   ty = dget kvs ''type''
               in if ty = JStr ''Accept'' then (Returned [] 200, s)
                  else if \<not> supported ty then (Raised (Error 501), s)
                  else if ty = JStr ''Undo'' then
                    (case py_get obj ''type'' of
                       Inl e \<Rightarrow> (Raised e, s)
                     | Inr oty \<Rightarrow>
                         if oty = JStr ''Follow''
                         then (case undo_follow E (redirect_unwrap E act) s of
                                 (Some e, s1) \<Rightarrow> (Raised e, s1)
                               | (None, s1) \<Rightarrow> (Returned [] 200, s1))
                         else deliver E kvs ty s)
                  else if ty = JStr ''Delete'' then
                    (case py_get obj ''id'' of
                       Inl e \<Rightarrow> (Raised e, s)
                     | Inr i \<Rightarrow> (Returned [] 200, s))
                  else deliver E kvs ty s)
          | _ \<Rightarrow> (Raised AttributeError, s)))"

subsection \<open>A concrete environment, store and activities\<close>

text \<open>
  Collaborators that always succeed: the fetched actor has the given URL as id and an
  inbox under it, nothing is redirect-wrapped, no webmention is sent, an activity is public
  when it has a non-empty \<^verbatim>\<open>to\<close>, the remote inbox answers 202.
\<close>

definition example_env :: env where
  "example_env =
     \<lparr>get_as2 = (\<lambda>u. Inr (JObj [(''id'', JStr u), (''inbox'', JStr (u @ ''/inbox''))])),
      redirect_unwrap = (\<lambda>j. j),
      to_as1 = (\<lambda>j. Inr j),
      json_dumps = (\<lambda>j. case j of JObj kvs \<Rightarrow> concat (map fst kvs) | _ \<Rightarrow> []),
      send_webmentions = (\<lambda>a b. Inr False),
      is_public = (\<lambda>j. case j of JObj kvs \<Rightarrow> truthy (dget kvs ''to'') | _ \<Rightarrow> False),
      domain_from_link = (\<lambda>j. case j of JStr u \<Rightarrow> Inr (Some u) | _ \<Rightarrow> Inr None),
      requests_post = (\<lambda>r. Inr \<lparr>resp_text = ''ok'', status_code = 202\<rparr>),
      tag_uri = (\<lambda>d n. ''tag:'' @ d @ '':'' @ n),
      py_str = (\<lambda>j. case j of JStr x \<Rightarrow> x | _ \<Rightarrow> ''None''),
      sha256 = (\<lambda>b. ''h'' @ b),
      b64encode = (\<lambda>b. ''b'' @ b),
      rsa_sha256 = (\<lambda>k i hs. k @ i),
      generate_key = (\<lambda>d. ''pem-'' @ d),
      now = ''Tue, 03 Nov 2026 00:00:00 GMT'',
      host_url = ''https://fed.example/'',
      host = ''fed.example''\<rparr>"

text \<open>
  A store in which the actor \<^verbatim>\<open>bob\<close> has two followers, one of them deactivated.
\<close>

definition example_state :: state where
  "example_state =
     \<lparr>followers =
        [((''bob'', ''alice.example''),
          \<lparr>dest = ''bob'', src = ''alice.example'', status = ''active'', last_follow = []\<rparr>),
         ((''bob'', ''carol.example''),
          \<lparr>dest = ''bob'', src = ''carol.example'', status = ''inactive'',
           last_follow = []\<rparr>)],
      activities = [], users = [], outbox = []\<rparr>"

definition example_follow :: dict where
  "example_follow =
     [(''type'', JStr ''Follow''), (''id'', JStr ''f1''), (''actor'', JStr ''bob''),
      (''object'', JStr ''alice.example'')]"

definition example_undo :: dict where
  "example_undo =
     [(''type'', JStr ''Undo''), (''actor'', JStr ''alice.example''),
      (''object'', JObj [(''type'', JStr ''Follow''), (''actor'', JStr ''alice.example''),
                         (''object'', JStr ''bob'')])]"

definition example_create :: dict where
  "example_create =
     [(''type'', JStr ''Create''), (''id'', JStr ''n1''),
      (''actor'', JObj [(''id'', JStr ''bob'')]),
      (''to'', JArr [JStr ''https://www.w3.org/ns/activitystreams#Public''])]"

text \<open>The actor that \<open>example_env\<close> fetches for \<^verbatim>\<open>bob\<close>, and the Follow with it.\<close>

definition example_actor :: dict where
  "example_actor = [(''id'', JStr ''bob''), (''inbox'', JStr ''bob/inbox'')]"

definition example_follow_fetched :: dict where
  "example_follow_fetched =
     [(''type'', JStr ''Follow''), (''id'', JStr ''f1''), (''actor'', JObj example_actor),
      (''object'', JStr ''alice.example'')]"

text \<open>
  Two environments in which the Accept delivery fails: the remote inbox answers 500, or
  \<^verbatim>\<open>common.requests_post\<close> raises.
\<close>

definition refusing_env :: env where
  "refusing_env =
     example_env\<lparr>requests_post := (\<lambda>r. Inr \<lparr>resp_text = ''no'', status_code = 500\<rparr>)\<rparr>"

definition unreachable_env :: env where
  "unreachable_env = example_env\<lparr>requests_post := (\<lambda>r. Inl (Other ''BadGateway''))\<rparr>"

section \<open>Properties\<close>

subsection \<open>Dicts, stores and send\<close>

lemma supported_names:
  "supported (JStr ''Like'')" "supported (JStr ''Undo'')" "supported (JStr ''Delete'')"
  "supported (JStr ''Create'')" "supported (JStr ''Announce'')" "supported (JStr ''Follow'')"
  by (simp_all add: supported_def SUPPORTED_TYPES_def)

lemma dget_nonempty: "dget kvs k = JStr (c # cs) \<Longrightarrow> kvs \<noteq> []"
  by (auto simp: dget_def)

lemma dget_update_same: "dget (AList.update k v kvs) k = v"
  by (simp add: dget_def update_conv')

lemma dget_update_other: "k' \<noteq> k \<Longrightarrow> dget (AList.update k v kvs) k' = dget kvs k'"
  by (simp add: dget_def update_conv')

lemma fetch_actor_actor: "fetch_actor E kvs = Inr (a, k1) \<Longrightarrow> dget k1 ''actor'' = a"
  by (auto simp: fetch_actor_def dget_update_same split: json.splits if_splits sum.splits)

lemma fetch_actor_other:
  "fetch_actor E kvs = Inr (a, k1) \<Longrightarrow> k \<noteq> ''actor'' \<Longrightarrow> dget k1 k = dget kvs k"
  by (auto simp: fetch_actor_def dget_update_other split: json.splits if_splits sum.splits)

lemma user_followers: "followers (snd (User_get_or_create E d s)) = followers s"
  and user_activities: "activities (snd (User_get_or_create E d s)) = activities s"
  and user_outbox: "outbox (snd (User_get_or_create E d s)) = outbox s"
  by (simp_all add: User_get_or_create_def split: option.splits)

lemma send_followers: "followers (snd (send E a u d s)) = followers s"
  and send_activities: "activities (snd (send E a u d s)) = activities s"
  using user_followers [of E d s] user_activities [of E d s]
  by (auto simp: send_def Let_def split: prod.splits sum.splits)

lemma send_posts:
  assumes "domain_from_link E u = Inr h"
  shows "send E a u d s =
           (requests_post E (build_request E a u d (fst (User_get_or_create E d s)) h),
            (snd (User_get_or_create E d s))
              \<lparr>outbox := outbox s @ [build_request E a u d (fst (User_get_or_create E d s)) h]\<rparr>)"
  using assms user_outbox [of E d s]
  by (auto simp: send_def Let_def split: prod.splits)


lemma accept_follow_valid:
  assumes "dget k1 ''actor'' = JObj akvs"
    and "dget akvs ''inbox'' = u" and "truthy u"
    and "dget akvs ''id'' = JStr fid" and "fid \<noteq> []"
    and "truthy (dget k1 ''object'')"
    and "truthy (dget ukvs ''object'')"
    and "domain_from_link E (dget ukvs ''object'') = Inr (Some d)"
  shows "accept_follow E k1 (JObj ukvs) s =
    (let s1 = s\<lparr>followers :=
                 AList.update (d, fid)
                   \<lparr>dest = d, src = fid, status = ''active'',
                    last_follow = json_dumps E (JObj k1)\<rparr> (followers s)\<rparr>;
         rs = send E (accept_activity E d (dget k1 ''id'') (dget k1 ''object'') (JStr fid))
                u d s1
     in case fst rs of
          Inl e \<Rightarrow> (Raised e, snd rs)
        | Inr resp \<Rightarrow>
            (case to_as1 E (JObj k1) of
               Inl e \<Rightarrow> (Raised e, snd rs)
             | Inr as1 \<Rightarrow>
                 (case send_webmentions E as1 (json_dumps E (JObj ukvs)) of
                    Inl e \<Rightarrow> (Raised e, snd rs)
                  | Inr w \<Rightarrow> (Returned (resp_text resp) (status_code resp), snd rs))))"
proof -
  have "akvs \<noteq> []" using assms(4,5) by (auto simp: dget_def)
  with assms show ?thesis
    by (simp add: accept_follow_def Let_def Follower_get_or_create_def Follower_id_def
          split: prod.splits sum.splits)
qed

lemma inbox_follow:
  assumes "dget kvs ''type'' = JStr ''Follow''" and "fetch_actor E kvs = Inr (a, k1)"
  shows "inbox E (Some (JObj kvs)) s = accept_follow E k1 (redirect_unwrap E (JObj k1)) s"
proof -
  have "kvs \<noteq> []" using assms(1) by (auto simp: dget_def)
  then show ?thesis using assms
    by (simp add: inbox_def Let_def supported_names deliver_def)
qed





subsection \<open>The paths of inbox\<close>




lemma inbox_falls_through:
  assumes "dget kvs ''type'' = JStr t" and "supported (JStr t)"
    and "t \<noteq> ''Accept''" and "t \<noteq> ''Undo''" and "t \<noteq> ''Delete''"
  shows "inbox E (Some (JObj kvs)) s = deliver E kvs (JStr t) s"
proof -
  have "kvs \<noteq> []" using assms(1) by (auto simp: dget_def)
  then show ?thesis using assms
    by (simp add: inbox_def Let_def)
qed

subsection \<open>Like (C3)\<close>




subsection \<open>Undo of a bare id (C10)\<close>



subsection \<open>Delete (C7)\<close>

text \<open>
  Claim C7 says that every incoming Delete returns success with an empty body and
  changes no Follower record. Line 126, \<^verbatim>\<open>id = obj.get('id')\<close>, is kept from the
  disabled deletion; line 109 turns a string \<^verbatim>\<open>object\<close> into a dict but leaves a
  list as it is, and a list has no \<^verbatim>\<open>get\<close>: a Delete whose \<^verbatim>\<open>object\<close> is a
  non-empty list raises \<^verbatim>\<open>AttributeError\<close> instead of returning. The state is
  unchanged there too.
\<close>

theorem delete_with_list_object_raises:
  "inbox example_env
     (Some (JObj [(''type'', JStr ''Delete''), (''object'', JArr [JStr ''bob''])]))
     example_state = (Raised AttributeError, example_state)"
  by (simp add: inbox_def supported_def SUPPORTED_TYPES_def dget_def py_or_def)

text \<open>
  What holds of every Delete: nothing in the state changes.
\<close>

lemma delete_changes_nothing:
  assumes "dget kvs ''type'' = JStr ''Delete''"
  shows "snd (inbox E (Some (JObj kvs)) s) = s"
  using assms by (simp add: inbox_def Let_def supported_names split: sum.splits)

text \<open>
  A Delete whose \<^verbatim>\<open>object\<close> is a string, a dict, or missing or falsy returns an
  empty 200.
\<close>

lemma delete_returns_empty:
  assumes "dget kvs ''type'' = JStr ''Delete''"
    and "dget kvs ''object'' = JStr i \<or> dget kvs ''object'' = JObj o' \<or>
         \<not> truthy (dget kvs ''object'')"
  shows "inbox E (Some (JObj kvs)) s = (Returned [] 200, s)"
proof -
  have ne: "kvs \<noteq> []" using assms(1) by (auto simp: dget_def)
  show ?thesis
  proof (cases "truthy (dget kvs ''object'')")
    case False
    with ne assms(1) show ?thesis
      by (simp add: inbox_def Let_def supported_names py_or_def)
  next
    case True
    with assms(2) have "dget kvs ''object'' = JStr i \<or> dget kvs ''object'' = JObj o'"
      by simp
    with True ne assms(1) show ?thesis
      by (auto simp: inbox_def Let_def supported_names py_or_def)
  qed
qed

subsection \<open>Non-public Create (C8)\<close>

text \<open>
  Claim C8: a Create for which \<^verbatim>\<open>send_webmentions\<close> returned false and which
  \<^verbatim>\<open>is_public\<close> rejects writes no Activity (the state is unchanged) and returns an
  empty 200.
\<close>

theorem nonpublic_create_dropped:
  assumes "dget kvs ''type'' = JStr ''Create''"
    and "fetch_actor E kvs = Inr (a, k1)" and "to_as1 E (JObj k1) = Inr as1"
    and "send_webmentions E as1 (json_dumps E (redirect_unwrap E (JObj k1))) = Inr False"
    and "\<not> is_public E (redirect_unwrap E (JObj k1))"
  shows "inbox E (Some (JObj kvs)) s = (Returned [] 200, s)"
proof -
  have "inbox E (Some (JObj kvs)) s = deliver E kvs (JStr ''Create'') s"
    using assms(1) by (rule inbox_falls_through) (simp_all add: supported_names)
  with assms show ?thesis by (simp add: deliver_def Let_def)
qed

text \<open>
  Claim C8 at a concrete Create without a \<^verbatim>\<open>to\<close> audience.
\<close>

theorem nonpublic_create_dropped_witness:
  "inbox example_env
     (Some (JObj [(''type'', JStr ''Create''), (''id'', JStr ''n2''),
                  (''actor'', JObj [(''id'', JStr ''bob'')])]))
     example_state = (Returned [] 200, example_state)"
proof -
  let ?kvs = "[(''type'', JStr ''Create''), (''id'', JStr ''n2''),
               (''actor'', JObj [(''id'', JStr ''bob'')])]"
  have t: "dget ?kvs ''type'' = JStr ''Create''" by (simp add: dget_def)
  have f: "fetch_actor example_env ?kvs = Inr (JObj [(''id'', JStr ''bob'')], ?kvs)"
    by (simp add: fetch_actor_def dget_def)
  have a: "to_as1 example_env (JObj ?kvs) = Inr (JObj ?kvs)"
    by (simp add: example_env_def)
  have w: "send_webmentions example_env (JObj ?kvs)
             (json_dumps example_env (redirect_unwrap example_env (JObj ?kvs))) = Inr False"
    by (simp add: example_env_def)
  have p: "\<not> is_public example_env (redirect_unwrap example_env (JObj ?kvs))"
    by (simp add: example_env_def dget_def)
  show ?thesis by (rule nonpublic_create_dropped [OF t f a w p])
qed

subsection \<open>Follow, Undo of a Follow, and what the handler returns\<close>

lemma inbox_follow_valid:
  assumes "dget kvs ''type'' = JStr ''Follow''"
    and "fetch_actor E kvs = Inr (JObj akvs, k1)"
    and "dget akvs ''inbox'' = JStr u" and "u \<noteq> []"
    and "dget akvs ''id'' = JStr fid" and "fid \<noteq> []"
    and "truthy (dget kvs ''object'')"
    and "redirect_unwrap E (JObj k1) = JObj ukvs"
    and "truthy (dget ukvs ''object'')"
    and "domain_from_link E (dget ukvs ''object'') = Inr (Some d)"
  shows "inbox E (Some (JObj kvs)) s =
    (let rs = send E (accept_activity E d (dget kvs ''id'') (dget kvs ''object'') (JStr fid))
                (JStr u) d
                (s\<lparr>followers :=
                     AList.update (d, fid)
                       \<lparr>dest = d, src = fid, status = ''active'',
                        last_follow = json_dumps E (JObj k1)\<rparr> (followers s)\<rparr>)
     in (case fst rs of
           Inl e \<Rightarrow> Raised e
         | Inr resp \<Rightarrow>
             (case to_as1 E (JObj k1) of
                Inl e \<Rightarrow> Raised e
              | Inr as1 \<Rightarrow>
                  (case send_webmentions E as1 (json_dumps E (JObj ukvs)) of
                     Inl e \<Rightarrow> Raised e
                   | Inr w \<Rightarrow> Returned (resp_text resp) (status_code resp))),
         snd rs))"
proof -
  have actor: "dget k1 ''actor'' = JObj akvs"
    using assms(2) by (rule fetch_actor_actor)
  have ob: "dget k1 ''object'' = dget kvs ''object''" and i: "dget k1 ''id'' = dget kvs ''id''"
    using assms(2) by (simp_all add: fetch_actor_other)
  have "inbox E (Some (JObj kvs)) s = accept_follow E k1 (JObj ukvs) s"
    using inbox_follow [OF assms(1,2)] assms(8) by simp
  also have "\<dots> = (let s1 = s\<lparr>followers :=
                 AList.update (d, fid)
                   \<lparr>dest = d, src = fid, status = ''active'',
                    last_follow = json_dumps E (JObj k1)\<rparr> (followers s)\<rparr>;
         rs = send E (accept_activity E d (dget k1 ''id'') (dget k1 ''object'') (JStr fid))
                (JStr u) d s1
     in case fst rs of
          Inl e \<Rightarrow> (Raised e, snd rs)
        | Inr resp \<Rightarrow>
            (case to_as1 E (JObj k1) of
               Inl e \<Rightarrow> (Raised e, snd rs)
             | Inr as1 \<Rightarrow>
                 (case send_webmentions E as1 (json_dumps E (JObj ukvs)) of
                    Inl e \<Rightarrow> (Raised e, snd rs)
                  | Inr w \<Rightarrow> (Returned (resp_text resp) (status_code resp), snd rs))))"
    using actor assms(3-6,9,10) assms(7) [folded ob]
    by (intro accept_follow_valid) simp_all
  finally show ?thesis
    by (simp add: Let_def ob i split: sum.splits)
qed

lemma inbox_undo_follow:
  assumes "dget kvs ''type'' = JStr ''Undo''"
    and "dget kvs ''object'' = JObj okvs" and "dget okvs ''type'' = JStr ''Follow''"
  shows "inbox E (Some (JObj kvs)) s =
           (case undo_follow E (redirect_unwrap E (JObj kvs)) s of
              (Some e, s1) \<Rightarrow> (Raised e, s1)
            | (None, s1) \<Rightarrow> (Returned [] 200, s1))"
proof -
  have ne: "kvs \<noteq> []" using assms(1) by (auto simp: dget_def)
  have "okvs \<noteq> []" using assms(3) by (auto simp: dget_def)
  with ne assms show ?thesis
    by (simp add: inbox_def Let_def supported_names py_or_def)
qed

lemma undo_follow_twice:
  "undo_follow E x (snd (undo_follow E x s)) = undo_follow E x s"
proof -
  have put: "Follower_put k f (Follower_put k f s) = Follower_put k f s" for k f
    by (simp add: Follower_put_def)
  have get: "Follower_get_by_id k (Follower_put k f s) = Some f" for k f
    by (simp add: Follower_get_by_id_def Follower_put_def update_conv')
  show ?thesis
    by (auto simp: undo_follow_def Let_def put get split: json.splits option.splits sum.splits)
qed

lemma undo_follow_valid:
  assumes "map_of ukvs ''object'' = Some (JObj fkvs)"
    and "dget fkvs ''actor'' = JStr a" and "a \<noteq> []"
    and "truthy (dget fkvs ''object'')"
    and "domain_from_link E (dget fkvs ''object'') = Inr (Some d)"
  shows "undo_follow E (JObj ukvs) s =
           (None, case map_of (followers s) (d, a) of
                    None \<Rightarrow> s
                  | Some f \<Rightarrow> s\<lparr>followers :=
                                  AList.update (d, a) (f\<lparr>status := ''inactive''\<rparr>)
                                    (followers s)\<rparr>)"
  using assms
  by (simp add: undo_follow_def Let_def Follower_id_def Follower_get_by_id_def Follower_put_def
        split: option.splits)

lemma undo_follow_path_returned:
  "fst (case undo_follow E x s of
          (Some e, s1) \<Rightarrow> (Raised e, s1)
        | (None, s1) \<Rightarrow> (Returned [] 200, s1)) = Returned b c \<Longrightarrow> b = [] \<and> c = 200"
  by (auto split: prod.splits option.splits)




lemma example_follow_facts:
  "dget example_follow ''type'' = JStr ''Follow''"
  "fetch_actor example_env example_follow = Inr (JObj example_actor, example_follow_fetched)"
  "fetch_actor refusing_env example_follow = Inr (JObj example_actor, example_follow_fetched)"
  "fetch_actor unreachable_env example_follow = Inr (JObj example_actor, example_follow_fetched)"
  "dget example_actor ''inbox'' = JStr ''bob/inbox''" "''bob/inbox'' \<noteq> []"
  "dget example_actor ''id'' = JStr ''bob''" "''bob'' \<noteq> []"
  "truthy (dget example_follow ''object'')"
  "truthy (dget example_follow_fetched ''object'')"
  "dget example_follow_fetched ''object'' = JStr ''alice.example''"
  by (simp_all add: example_follow_def example_follow_fetched_def example_actor_def
        fetch_actor_def dget_def example_env_def refusing_env_def unreachable_env_def)

lemma example_env_facts:
  "redirect_unwrap example_env j = j"
  "redirect_unwrap refusing_env j = j"
  "redirect_unwrap unreachable_env j = j"
  "domain_from_link example_env (JStr u) = Inr (Some u)"
  "domain_from_link refusing_env (JStr u) = Inr (Some u)"
  "domain_from_link unreachable_env (JStr u) = Inr (Some u)"
  by (simp_all add: example_env_def refusing_env_def unreachable_env_def)

subsection \<open>The log entry of a public Create or Announce (C1)\<close>

text \<open>
  Counterexample to claim C1 as stated: \<^verbatim>\<open>carol.example\<close> follows \<^verbatim>\<open>bob\<close> with
  status inactive, and the Activity written for a public Create of \<^verbatim>\<open>bob\<close> lists it.
  The query of lines 174 to 176 filters on \<^verbatim>\<open>dest\<close> only.
\<close>

theorem inactive_follower_in_fan_out:
  "map domain (activities (snd (inbox example_env (Some (JObj example_create)) example_state)))
     = [[''alice.example'', ''carol.example'']] \<and>
   map_of (followers example_state) (''bob'', ''carol.example'') =
     Some \<lparr>dest = ''bob'', src = ''carol.example'', status = ''inactive'', last_follow = []\<rparr>"
  by (simp add: inbox_def deliver_def fetch_actor_def log_activity_def example_env_def
        example_create_def example_state_def dget_def py_or_def supported_def
        SUPPORTED_TYPES_def Follower_query_dest_def Activity_put_def Let_def)

text \<open>
  Claim C1, amended: for a Create or Announce for which \<^verbatim>\<open>send_webmentions\<close>
  returned false, which is public and whose actor has a string id, the handler returns an
  empty 200 and appends exactly one Activity, whose domain list is the \<^verbatim>\<open>src\<close> of every
  Follower whose \<^verbatim>\<open>dest\<close> is the actor's id, whatever its status. Nothing else in the
  state changes.
\<close>

theorem create_logs_all_followers:
  assumes "dget kvs ''type'' = JStr ''Create'' \<or> dget kvs ''type'' = JStr ''Announce''"
    and "fetch_actor E kvs = Inr (JObj akvs, k1)" and "to_as1 E (JObj k1) = Inr as1"
    and "send_webmentions E as1 (json_dumps E (redirect_unwrap E (JObj k1))) = Inr False"
    and "is_public E (redirect_unwrap E (JObj k1))"
    and "dget akvs ''id'' = JStr aid" and "aid \<noteq> []"
  shows "inbox E (Some (JObj kvs)) s =
           (Returned [] 200,
            s\<lparr>activities := activities s @
                 [\<lparr>source = py_or (dget k1 ''url'') (dget k1 ''id''), target = ''Public'',
                   direction = ''in'', protocol = ''activitypub'',
                   domain = map src (filter (\<lambda>f. dest f = aid) (map snd (followers s))),
                   astatus = ''complete'',
                   source_as2 = json_dumps E (redirect_unwrap E (JObj k1))\<rparr>]\<rparr>)"
proof -
  have ne: "akvs \<noteq> []" using assms(6,7) by (auto simp: dget_def)
  from assms(1) obtain t where t: "dget kvs ''type'' = JStr t" "t = ''Create'' \<or> t = ''Announce''"
    by auto
  then have "inbox E (Some (JObj kvs)) s = deliver E kvs (JStr t) s"
    by (intro inbox_falls_through) (auto simp: supported_names)
  with t(2) assms(2-7) ne show ?thesis
    by (auto simp: deliver_def log_activity_def Follower_query_dest_def Activity_put_def Let_def)
qed

text \<open>
  The amended claim C1 at the concrete Create, in the store with the deactivated follower.
\<close>

theorem create_logs_all_followers_witness:
  "inbox example_env (Some (JObj example_create)) example_state =
     (Returned [] 200,
      example_state\<lparr>activities :=
        [\<lparr>source = JStr ''n1'', target = ''Public'', direction = ''in'',
          protocol = ''activitypub'', domain = [''alice.example'', ''carol.example''],
          astatus = ''complete'', source_as2 = ''typeidactorto''\<rparr>]\<rparr>)"
proof -
  have t: "dget example_create ''type'' = JStr ''Create'' \<or>
           dget example_create ''type'' = JStr ''Announce''"
    by (simp add: dget_def example_create_def)
  have f: "fetch_actor example_env example_create = Inr (JObj [(''id'', JStr ''bob'')], example_create)"
    by (simp add: fetch_actor_def dget_def example_create_def)
  have a: "to_as1 example_env (JObj example_create) = Inr (JObj example_create)"
    by (simp add: example_env_def)
  have w: "send_webmentions example_env (JObj example_create)
             (json_dumps example_env (redirect_unwrap example_env (JObj example_create))) = Inr False"
    by (simp add: example_env_def)
  have p: "is_public example_env (redirect_unwrap example_env (JObj example_create))"
    by (simp add: example_env_def dget_def example_create_def)
  have i: "dget [(''id'', JStr ''bob'')] ''id'' = JStr ''bob''" "''bob'' \<noteq> []"
    by (simp_all add: dget_def)
  show ?thesis
    using create_logs_all_followers [OF t f a w p i, of example_state]
    by (simp add: example_state_def example_create_def example_env_def dget_def py_or_def)
qed

subsection \<open>Follow (C2, C4)\<close>



text \<open>
  Counterexample to claim C4 as stated: when the remote inbox answers 500, line 229
  returns that body and status; when \<^verbatim>\<open>requests_post\<close> raises, the exception leaves
  the handler. In neither case does the inbound request return success.
\<close>

theorem failed_accept_fails_request:
  "fst (inbox refusing_env (Some (JObj example_follow)) example_state) = Returned ''no'' 500 \<and>
   fst (inbox unreachable_env (Some (JObj example_follow)) example_state) =
     Raised (Other ''BadGateway'')"
  by (simp add: inbox_def deliver_def fetch_actor_def accept_follow_def send_def
        User_get_or_create_def Follower_get_or_create_def Follower_id_def
        example_env_def refusing_env_def unreachable_env_def
        example_follow_def example_state_def dget_def py_or_def supported_def
        SUPPORTED_TYPES_def Let_def)

text \<open>
  Claim C4, amended: in Follow processing the Follower is stored before the Accept is
  sent: \<^verbatim>\<open>send\<close> runs in the state \<open>s1\<close> that already holds the record. Whatever
  the delivery does, the Follower records after the request are those of \<open>s1\<close>. An
  exception of the delivery is the exception of the request, and when the request
  returns, its body and status are those of the delivery's response.
\<close>

theorem follow_persists_before_accept:
  assumes "dget kvs ''type'' = JStr ''Follow''"
    and "fetch_actor E kvs = Inr (JObj akvs, k1)"
    and "dget akvs ''inbox'' = JStr u" and "u \<noteq> []"
    and "dget akvs ''id'' = JStr fid" and "fid \<noteq> []"
    and "truthy (dget kvs ''object'')"
    and "redirect_unwrap E (JObj k1) = JObj ukvs"
    and "truthy (dget ukvs ''object'')"
    and "domain_from_link E (dget ukvs ''object'') = Inr (Some d)"
  shows "let s1 = s\<lparr>followers :=
                      AList.update (d, fid)
                        \<lparr>dest = d, src = fid, status = ''active'',
                         last_follow = json_dumps E (JObj k1)\<rparr> (followers s)\<rparr>;
             rs = send E (accept_activity E d (dget kvs ''id'') (dget kvs ''object'')
                            (JStr fid)) (JStr u) d s1
         in followers (snd (inbox E (Some (JObj kvs)) s)) = followers s1 \<and>
            (\<forall>e. fst rs = Inl e \<longrightarrow> fst (inbox E (Some (JObj kvs)) s) = Raised e) \<and>
            (\<forall>b c. fst (inbox E (Some (JObj kvs)) s) = Returned b c \<longrightarrow>
                   (\<exists>resp. fst rs = Inr resp \<and> b = resp_text resp \<and>
                           c = status_code resp))"
  unfolding inbox_follow_valid [OF assms, of s]
  by (auto simp: Let_def send_followers split: sum.splits)

text \<open>
  The amended claim C4 where \<^verbatim>\<open>requests_post\<close> raises: the record is stored, the
  request fails.
\<close>

theorem follow_persists_before_accept_witness:
  "map_of (followers (snd (inbox unreachable_env (Some (JObj example_follow)) example_state)))
     (''alice.example'', ''bob'') =
     Some \<lparr>dest = ''alice.example'', src = ''bob'', status = ''active'',
           last_follow = ''typeidactorobject''\<rparr> \<and>
   fst (inbox unreachable_env (Some (JObj example_follow)) example_state) =
     Raised (Other ''BadGateway'')"
proof -
  let ?s1 = "example_state\<lparr>followers :=
               AList.update (''alice.example'', ''bob'')
                 \<lparr>dest = ''alice.example'', src = ''bob'', status = ''active'',
                  last_follow = json_dumps unreachable_env (JObj example_follow_fetched)\<rparr>
                 (followers example_state)\<rparr>"
  let ?acc = "accept_activity unreachable_env ''alice.example'' (dget example_follow ''id'')
                (dget example_follow ''object'') (JStr ''bob'')"
  have th: "let s1 = ?s1; rs = send unreachable_env ?acc (JStr ''bob/inbox'') ''alice.example'' s1
         in followers (snd (inbox unreachable_env (Some (JObj example_follow)) example_state)) =
              followers s1 \<and>
            (\<forall>e. fst rs = Inl e \<longrightarrow>
                 fst (inbox unreachable_env (Some (JObj example_follow)) example_state) = Raised e) \<and>
            (\<forall>b c. fst (inbox unreachable_env (Some (JObj example_follow)) example_state) =
                     Returned b c \<longrightarrow>
                   (\<exists>resp. fst rs = Inr resp \<and> b = resp_text resp \<and> c = status_code resp))"
    by (rule follow_persists_before_accept [where ukvs = example_follow_fetched
          and akvs = example_actor])
       (simp_all add: example_follow_facts example_env_facts)
  have fail: "fst (send unreachable_env ?acc (JStr ''bob/inbox'') ''alice.example'' ?s1) =
                Inl (Other ''BadGateway'')"
    by (subst send_posts [OF example_env_facts(6)]) (simp add: unreachable_env_def)
  have lf: "json_dumps unreachable_env (JObj example_follow_fetched) = ''typeidactorobject''"
    by (simp add: unreachable_env_def example_env_def example_follow_fetched_def)
  from th fail have
    "followers (snd (inbox unreachable_env (Some (JObj example_follow)) example_state)) =
       followers ?s1"
    and "fst (inbox unreachable_env (Some (JObj example_follow)) example_state) =
       Raised (Other ''BadGateway'')"
    by (simp_all add: Let_def)
  then show ?thesis
    by (simp add: lf update_conv')
qed

subsection \<open>Undo of a Follow (C5)\<close>

text \<open>
  Claim C5: processing an Undo of a Follow a second time gives the response and the
  state of the first time. When the unwrapped Undo names a follower (a string actor) and a
  followee with a domain \<open>d\<close>, the response is an empty 200; the record under
  \<open>(d, actor)\<close> has status inactive afterwards, and when there is no such record the
  state is unchanged.
\<close>

theorem undo_follow_idempotent:
  assumes "dget kvs ''type'' = JStr ''Undo''"
    and "dget kvs ''object'' = JObj okvs" and "dget okvs ''type'' = JStr ''Follow''"
  shows "inbox E (Some (JObj kvs)) (snd (inbox E (Some (JObj kvs)) s)) =
           inbox E (Some (JObj kvs)) s \<and>
         (\<forall>ukvs fkvs a d.
            redirect_unwrap E (JObj kvs) = JObj ukvs \<longrightarrow>
            map_of ukvs ''object'' = Some (JObj fkvs) \<longrightarrow>
            dget fkvs ''actor'' = JStr a \<longrightarrow> a \<noteq> [] \<longrightarrow>
            truthy (dget fkvs ''object'') \<longrightarrow>
            domain_from_link E (dget fkvs ''object'') = Inr (Some d) \<longrightarrow>
            inbox E (Some (JObj kvs)) s =
              (Returned [] 200,
               case map_of (followers s) (d, a) of
                 None \<Rightarrow> s
               | Some f \<Rightarrow> s\<lparr>followers :=
                               AList.update (d, a) (f\<lparr>status := ''inactive''\<rparr>)
                                 (followers s)\<rparr>))"
proof -
  note eq = inbox_undo_follow [OF assms]
  have st: "snd (inbox E (Some (JObj kvs)) s) =
              snd (undo_follow E (redirect_unwrap E (JObj kvs)) s)"
    by (simp add: eq split: prod.splits option.splits)
  have idem: "inbox E (Some (JObj kvs)) (snd (inbox E (Some (JObj kvs)) s)) =
           inbox E (Some (JObj kvs)) s"
    unfolding st by (simp add: eq undo_follow_twice)
  moreover have "inbox E (Some (JObj kvs)) s =
              (Returned [] 200,
               case map_of (followers s) (d, a) of
                 None \<Rightarrow> s
               | Some f \<Rightarrow> s\<lparr>followers :=
                               AList.update (d, a) (f\<lparr>status := ''inactive''\<rparr>)
                                 (followers s)\<rparr>)"
    if "redirect_unwrap E (JObj kvs) = JObj ukvs" "map_of ukvs ''object'' = Some (JObj fkvs)"
      "dget fkvs ''actor'' = JStr a" "a \<noteq> []" "truthy (dget fkvs ''object'')"
      "domain_from_link E (dget fkvs ''object'') = Inr (Some d)" for ukvs fkvs a d
    using undo_follow_valid [OF that(2-6), of s] that(1) by (simp add: eq)
  ultimately show ?thesis by blast
qed

text \<open>
  Claim C5 at the concrete Undo of the follow of \<^verbatim>\<open>bob\<close> by \<^verbatim>\<open>alice.example\<close>.
\<close>

theorem undo_follow_idempotent_witness:
  "fst (inbox example_env (Some (JObj example_undo)) example_state) = Returned [] 200 \<and>
   map_of (followers (snd (inbox example_env (Some (JObj example_undo)) example_state)))
     (''bob'', ''alice.example'') =
     Some \<lparr>dest = ''bob'', src = ''alice.example'', status = ''inactive'', last_follow = []\<rparr> \<and>
   inbox example_env (Some (JObj example_undo))
     (snd (inbox example_env (Some (JObj example_undo)) example_state)) =
     inbox example_env (Some (JObj example_undo)) example_state"
proof -
  let ?f = "[(''type'', JStr ''Follow''), (''actor'', JStr ''alice.example''),
             (''object'', JStr ''bob'')]"
  have t: "dget example_undo ''type'' = JStr ''Undo''"
    and ob: "dget example_undo ''object'' = JObj ?f"
    and ft: "dget ?f ''type'' = JStr ''Follow''"
    by (simp_all add: example_undo_def dget_def)
  note th = undo_follow_idempotent [OF t ob ft, of example_env example_state]
  have u: "redirect_unwrap example_env (JObj example_undo) = JObj example_undo"
    by (simp add: example_env_def)
  have m: "map_of example_undo ''object'' = Some (JObj ?f)"
    by (simp add: example_undo_def)
  have a: "dget ?f ''actor'' = JStr ''alice.example''" "''alice.example'' \<noteq> []"
    "truthy (dget ?f ''object'')"
    "domain_from_link example_env (dget ?f ''object'') = Inr (Some ''bob'')"
    by (simp_all add: dget_def example_env_def)
  from th [THEN conjunct2, rule_format, OF u m a]
  have r: "inbox example_env (Some (JObj example_undo)) example_state =
        (Returned [] 200,
         case map_of (followers example_state) (''bob'', ''alice.example'') of
           None \<Rightarrow> example_state
         | Some f \<Rightarrow> example_state\<lparr>followers :=
                        AList.update (''bob'', ''alice.example'') (f\<lparr>status := ''inactive''\<rparr>)
                          (followers example_state)\<rparr>)" .
  have "fst (inbox example_env (Some (JObj example_undo)) example_state) = Returned [] 200"
    by (simp add: r)
  moreover have "map_of (followers (snd (inbox example_env (Some (JObj example_undo))
                    example_state))) (''bob'', ''alice.example'') =
     Some \<lparr>dest = ''bob'', src = ''alice.example'', status = ''inactive'', last_follow = []\<rparr>"
    by (subst r) (simp add: example_state_def)
  ultimately show ?thesis using th [THEN conjunct1] by simp
qed

subsection \<open>Responses of the inbox (C6)\<close>




subsection \<open>Signed delivery (C9)\<close>



end
